theory Spec2Isabelle
  imports Main
begin

section \<open>Configuration\<close>

text \<open>
  The fields of \<^verbatim>\<open>config\<close> that the orchestration core reads. Times and durations are
  whole seconds (\<^verbatim>\<open>Math.floor(Date.now() / 1000)\<close>), the unit of the token claims
  and of the coordination store's expiry.
\<close>

record config =
  keyPrefix :: string
  unlockTokenSecret :: string
  unlockTokenTTL :: nat
  clockSkewToleranceSeconds :: nat
  maxUnlockAttempts :: nat
  slotReservationTTL :: nat

definition defaultConfig :: config where
  "defaultConfig =
     \<lparr> keyPrefix = ''delivery-security:'',
       unlockTokenSecret = ''unlock-token-secret-change-this'',
       unlockTokenTTL = 60,
       clockSkewToleranceSeconds = 10,
       maxUnlockAttempts = 3,
       slotReservationTTL = 1800 \<rparr>"

section \<open>Data model\<close>

datatype order_status = OCreated | OPrepared | OAssigned | OPickedUp | OComplete | OCancelled

datatype slot_state = SEmpty | SReserved | SOccupied | SUnlocking | SOpen | SError

record order =
  o_id :: string
  o_tenantId :: string
  o_siteId :: string
  o_externalRef :: string
  o_platform :: string
  o_riderId :: "string option"
  o_status :: order_status

record slot =
  s_id :: string
  s_shelfId :: string
  s_siteId :: string
  s_tenantId :: string
  s_index :: nat
  s_state :: slot_state
  s_orderId :: "string option"
  s_isActive :: bool

record unlock_claims =
  jti :: string
  c_tenantId :: string
  c_siteId :: string
  c_shelfId :: string
  c_slotId :: string
  c_orderId :: string
  c_riderId :: string
  c_exp :: nat
  c_nbf :: nat
  c_iat :: nat

text \<open>
  A presented token is a string. It either does not parse as a compact JWT, or it carries
  a claim set and a signature; the HMAC is idealised: the signature made under key \<open>k\<close>
  verifies under key \<open>k\<close> and under no other.
\<close>

datatype token = Garbage string | Signed unlock_claims string

record security_event =
  ev_id :: "string option"
  ev_type :: string
  ev_tenantId :: string
  ev_siteId :: "string option"
  ev_shelfId :: "string option"
  ev_slotId :: "string option"
  ev_orderId :: "string option"
  ev_riderId :: "string option"
  ev_userId :: "string option"
  ev_timestamp :: "nat option"

record qr_data =
  qr_orderId :: string
  qr_timestamp :: nat
  qr_hash :: string

record device_command =
  cmd_type :: string
  cmd_deviceId :: string
  cmd_slotId :: string
  cmd_expiresAt :: nat

text \<open>
  The calls out of the core that can reject on the paths followed here: the cache write of
  the fallback code (a \<^verbatim>\<open>SETEX\<close> of the coordination store) and the channel's
  publish. An operation runs against the set of those that reject during it. The store's
  commands behind the token and the reservation (\<^verbatim>\<open>SETNX\<close>, \<^verbatim>\<open>EXPIRE\<close>,
  \<^verbatim>\<open>EXISTS\<close>, \<^verbatim>\<open>DEL\<close>, \<^verbatim>\<open>INCR\<close>) are taken to answer.
\<close>

datatype ext_call = OtpCacheSet | MqttPublish

datatype error =
    OrderNotFound
  | InvalidOrderStatus order_status
  | TenantMismatch
  | PreferredSlotUnavailable
  | NoAvailableSlots
  | SlotTaken
  | MqttNotConnected
  | ExternalFailure ext_call
  | RedisNotInteger
  | JwtMalformed
  | InvalidSignature
  | NotBefore
  | TokenExpired

section \<open>Coordination store\<close>

text \<open>
  The key-value cache behind \<^verbatim>\<open>RedisService\<close>: a key holds a value and, when it
  has one, the instant at which it expires. A key is live at \<open>now\<close> when it is present
  and that instant lies ahead. A counter is kept as the integer whose decimal string the
  cache stores.
\<close>

datatype rvalue = Str string | Num int

type_synonym redis = "string \<rightharpoonup> (rvalue \<times> nat option)"

definition r_live :: "nat \<Rightarrow> redis \<Rightarrow> string \<Rightarrow> bool" where
  "r_live now r k =
     (case r k of
        None \<Rightarrow> False
      | Some (v, None) \<Rightarrow> True
      | Some (v, Some t) \<Rightarrow> now < t)"

definition r_get :: "nat \<Rightarrow> redis \<Rightarrow> string \<Rightarrow> rvalue option" where
  "r_get now r k = (if r_live now r k then map_option fst (r k) else None)"

definition r_exists :: "nat \<Rightarrow> redis \<Rightarrow> string \<Rightarrow> nat" where
  "r_exists now r k = (if r_live now r k then 1 else 0)"

definition r_setEx :: "nat \<Rightarrow> redis \<Rightarrow> string \<Rightarrow> nat \<Rightarrow> rvalue \<Rightarrow> redis" where
  "r_setEx now r k ttl v = r(k \<mapsto> (v, Some (now + ttl)))"

definition r_setNX :: "nat \<Rightarrow> redis \<Rightarrow> string \<Rightarrow> rvalue \<Rightarrow> bool \<times> redis" where
  "r_setNX now r k v = (if r_live now r k then (False, r) else (True, r(k \<mapsto> (v, None))))"

definition r_expire :: "nat \<Rightarrow> redis \<Rightarrow> string \<Rightarrow> nat \<Rightarrow> redis" where
  "r_expire now r k ttl =
     (case r_get now r k of
        None \<Rightarrow> r
      | Some v \<Rightarrow> r(k \<mapsto> (v, Some (now + ttl))))"

definition r_del :: "redis \<Rightarrow> string \<Rightarrow> redis" where
  "r_del r k = r(k := None)"


section \<open>World state\<close>

text \<open>
  What the operations act on: the coordination store; the order and slot tables that the
  read helpers consult; the lines the logger has been given, by kind (the
  \<open>Security event logged\<close> lines of the ledger, the security log, the audit log, the
  errors); the channel's connection flag and the commands published on it; the timers
  set. Debug lines are not kept.
\<close>

record event_line =
  el_eventId :: string
  el_type :: string
  el_tenantId :: string

record world =
  redis :: redis
  orders :: "order list"
  slots :: "slot list"
  eventlog :: "event_line list"
  seclog :: "string list"
  auditlog :: "string list"
  errlog :: "error list"
  mqttConnected :: bool
  published :: "device_command list"
  timers :: "(string \<times> nat) list"

section \<open>RedisService\<close>

fun join_colon :: "string list \<Rightarrow> string" where
  "join_colon [] = []"
| "join_colon [p] = p"
| "join_colon (p # ps) = p @ '':'' @ join_colon ps"

definition getKey :: "config \<Rightarrow> string list \<Rightarrow> string" where
  "getKey cfg parts = keyPrefix cfg @ join_colon parts"

definition storeUnlockTokenJti :: "config \<Rightarrow> nat \<Rightarrow> string \<Rightarrow> nat \<Rightarrow> world \<Rightarrow> world" where
  "storeUnlockTokenJti cfg now j ttl w =
     w\<lparr>redis := r_setEx now (redis w) (getKey cfg [''unlock_jti'', j]) ttl (Str ''1'')\<rparr>"

definition verifyUnlockTokenJti :: "config \<Rightarrow> nat \<Rightarrow> string \<Rightarrow> world \<Rightarrow> bool" where
  "verifyUnlockTokenJti cfg now j w =
     (r_exists now (redis w) (getKey cfg [''unlock_jti'', j]) = 1)"

definition consumeUnlockTokenJti :: "config \<Rightarrow> string \<Rightarrow> world \<Rightarrow> world" where
  "consumeUnlockTokenJti cfg j w =
     w\<lparr>redis := r_del (redis w) (getKey cfg [''unlock_jti'', j])\<rparr>"


definition reserveSlot ::
  "config \<Rightarrow> nat \<Rightarrow> string \<Rightarrow> string \<Rightarrow> nat \<Rightarrow> world \<Rightarrow> bool \<times> world" where
  "reserveSlot cfg now slotId orderId ttl w =
     (let key = getKey cfg [''slot_reservation'', slotId] in
      case r_setNX now (redis w) key (Str orderId) of
        (True, r1) \<Rightarrow> (True, w\<lparr>redis := r_expire now r1 key ttl\<rparr>)
      | (False, r1) \<Rightarrow> (False, w\<lparr>redis := r1\<rparr>))"

definition getSlotReservation :: "config \<Rightarrow> nat \<Rightarrow> string \<Rightarrow> world \<Rightarrow> rvalue option" where
  "getSlotReservation cfg now slotId w =
     r_get now (redis w) (getKey cfg [''slot_reservation'', slotId])"

definition releaseSlot :: "config \<Rightarrow> string \<Rightarrow> world \<Rightarrow> world" where
  "releaseSlot cfg slotId w =
     w\<lparr>redis := r_del (redis w) (getKey cfg [''slot_reservation'', slotId])\<rparr>"

text \<open>
  \<^verbatim>\<open>setCache\<close> stores \<^verbatim>\<open>JSON.stringify(value)\<close>. The one value cached
  here is a string of digits, whose JSON text is the string between double quotes.
\<close>

definition jsonDigits :: "string \<Rightarrow> string" where
  "jsonDigits v = CHR 0x22 # v @ [CHR 0x22]"

definition setCache :: "config \<Rightarrow> nat \<Rightarrow> string \<Rightarrow> string \<Rightarrow> nat \<Rightarrow> world \<Rightarrow> world" where
  "setCache cfg now key v ttl w =
     w\<lparr>redis := r_setEx now (redis w) (getKey cfg [''cache'', key]) ttl (Str (jsonDigits v))\<rparr>"

section \<open>AuthService: the unlock token\<close>

text \<open>
  \<^verbatim>\<open>logSecurityEvent\<close> appends the event's name to the security log.
\<close>

definition logSecurityEvent :: "string \<Rightarrow> world \<Rightarrow> world" where
  "logSecurityEvent name w = w\<lparr>seclog := seclog w @ [name]\<rparr>"

text \<open>
  \<^verbatim>\<open>jwt.verify\<close> with \<^verbatim>\<open>clockTolerance\<close>: the signature first, then the
  not-before claim (rejected when \<open>nbf > now + tolerance\<close>), then the expiry
  (rejected when \<open>now \<ge> exp + tolerance\<close>).
\<close>

definition jwt_verify :: "string \<Rightarrow> nat \<Rightarrow> nat \<Rightarrow> token \<Rightarrow> error + unlock_claims" where
  "jwt_verify key tol now tok =
     (case tok of
        Garbage s \<Rightarrow> Inl JwtMalformed
      | Signed c k \<Rightarrow>
          if k \<noteq> key then Inl InvalidSignature
          else if c_nbf c > now + tol then Inl NotBefore
          else if now \<ge> c_exp c + tol then Inl TokenExpired
          else Inr c)"

definition generateUnlockToken ::
  "config \<Rightarrow> nat \<Rightarrow> string \<Rightarrow> string \<Rightarrow> string \<Rightarrow> string \<Rightarrow> string \<Rightarrow> string \<Rightarrow> string \<Rightarrow>
   world \<Rightarrow> token \<times> world" where
  "generateUnlockToken cfg now uuid orderId riderId slotId shelfId siteId tenantId w =
     (let tokenPayload =
            \<lparr> jti = uuid, c_tenantId = tenantId, c_siteId = siteId, c_shelfId = shelfId,
              c_slotId = slotId, c_orderId = orderId, c_riderId = riderId,
              c_exp = now + unlockTokenTTL cfg, c_nbf = now, c_iat = now \<rparr>;
          tok = Signed tokenPayload (unlockTokenSecret cfg);
          w1 = storeUnlockTokenJti cfg now uuid (unlockTokenTTL cfg + 10) w
      in (tok, logSecurityEvent ''unlock_token_generated'' w1))"

text \<open>
  \<^verbatim>\<open>verifyUnlockToken\<close> awaits the store twice: once for the \<^verbatim>\<open>EXISTS\<close> of
  \<^verbatim>\<open>verifyUnlockTokenJti\<close>, once for the \<^verbatim>\<open>DEL\<close> of
  \<^verbatim>\<open>consumeUnlockTokenJti\<close>. \<open>verifyBegin\<close> is the call up to the answer of the
  first; \<open>verifyFinish\<close> is the rest. Another call can run between the two.
\<close>

datatype verify_progress = Rejected | JtiChecked unlock_claims bool

definition verifyBegin ::
  "config \<Rightarrow> nat \<Rightarrow> token \<Rightarrow> string \<Rightarrow> world \<Rightarrow> verify_progress \<times> world" where
  "verifyBegin cfg now tok requestingShelfId w =
     (case jwt_verify (unlockTokenSecret cfg) (clockSkewToleranceSeconds cfg) now tok of
        Inl e \<Rightarrow>
          (Rejected,
           logSecurityEvent ''unlock_token_verification_failed'' (w\<lparr>errlog := errlog w @ [e]\<rparr>))
      | Inr decoded \<Rightarrow>
          if c_shelfId decoded \<noteq> requestingShelfId
          then (Rejected, logSecurityEvent ''unlock_token_wrong_shelf'' w)
          else (JtiChecked decoded (verifyUnlockTokenJti cfg now (jti decoded) w), w))"

definition verifyFinish ::
  "config \<Rightarrow> verify_progress \<Rightarrow> world \<Rightarrow> unlock_claims option \<times> world" where
  "verifyFinish cfg p w =
     (case p of
        Rejected \<Rightarrow> (None, w)
      | JtiChecked decoded isJtiValid \<Rightarrow>
          if \<not> isJtiValid
          then (None, logSecurityEvent ''unlock_token_replay_attempt'' w)
          else (Some decoded,
                logSecurityEvent ''unlock_token_verified''
                  (consumeUnlockTokenJti cfg (jti decoded) w)))"

text \<open>A call that runs with no other call between its two awaits.\<close>

definition verifyUnlockToken ::
  "config \<Rightarrow> nat \<Rightarrow> token \<Rightarrow> string \<Rightarrow> world \<Rightarrow> unlock_claims option \<times> world" where
  "verifyUnlockToken cfg now tok requestingShelfId w =
     (case verifyBegin cfg now tok requestingShelfId w of
        (p, w1) \<Rightarrow> verifyFinish cfg p w1)"

text \<open>
  Two calls of which the second is started before the first has sent its \<^verbatim>\<open>DEL\<close>:
  both \<^verbatim>\<open>EXISTS\<close> are answered, then each call finishes. The result is the pair of
  what the two calls return.
\<close>

definition verifyOverlapping ::
  "config \<Rightarrow> nat \<Rightarrow> string \<Rightarrow> nat \<Rightarrow> string \<Rightarrow> token \<Rightarrow> world \<Rightarrow>
   (unlock_claims option \<times> unlock_claims option) \<times> world" where
  "verifyOverlapping cfg t1 shelf1 t2 shelf2 tok w =
     (case verifyBegin cfg t1 tok shelf1 w of
        (p1, w1) \<Rightarrow>
          (case verifyBegin cfg t2 tok shelf2 w1 of
             (p2, w2) \<Rightarrow>
               (case verifyFinish cfg p1 w2 of
                  (r1, w3) \<Rightarrow>
                    (case verifyFinish cfg p2 w3 of
                       (r2, w4) \<Rightarrow> ((r1, r2), w4)))))"

text \<open>A run of verification attempts \<open>(time, shelf)\<close> of one token, in order.\<close>

fun verifyAttempts ::
  "config \<Rightarrow> token \<Rightarrow> (nat \<times> string) list \<Rightarrow> world \<Rightarrow> unlock_claims option list \<times> world" where
  "verifyAttempts cfg tok [] w = ([], w)"
| "verifyAttempts cfg tok ((t, shelf) # rest) w =
     (case verifyUnlockToken cfg t tok shelf w of
        (r, w1) \<Rightarrow> (case verifyAttempts cfg tok rest w1 of (rs, w2) \<Rightarrow> (r # rs, w2)))"

section \<open>Environment of an operation\<close>

text \<open>
  What an operation takes from outside while it runs: the calls that reject, and the
  draws it makes (the token identifier and the event identifier from the UUID
  generator, the six digits of the fallback code, the millisecond clock read for the QR
  payload).
\<close>

record env =
  faults :: "ext_call set"

record entropy =
  e_uuid :: string
  e_eventId :: string
  e_otp :: string
  e_millis :: nat

definition bindE ::
  "('s \<Rightarrow> ('e + 'a) \<times> 's) \<Rightarrow> ('a \<Rightarrow> 's \<Rightarrow> ('e + 'b) \<times> 's) \<Rightarrow> 's \<Rightarrow> ('e + 'b) \<times> 's" where
  "bindE m f s = (case m s of (Inl e, s1) \<Rightarrow> (Inl e, s1) | (Inr a, s1) \<Rightarrow> f a s1)"

section \<open>Durable store\<close>

text \<open>
  Modelled from the spec: the rows the orchestrator's read helpers return. In the source
  as shipped \<^verbatim>\<open>getOrder\<close>, \<^verbatim>\<open>getSlot\<close>, \<^verbatim>\<open>getOrderAssignedSlot\<close> and
  \<^verbatim>\<open>findAvailableSlot\<close> return \<^verbatim>\<open>null\<close> for every argument ("Implementation
  would query database"), so that no operation gets past its first check. Here they read
  the order table and the slot table of the world: the row with the identifier, the slot
  bound to the order, the first empty active slot of the site and tenant. With empty
  tables, as in \<open>initWorld\<close>, each of them returns \<open>None\<close> for every argument, which is
  the shipped behaviour; a non-empty table serves to say which path an operation takes.
\<close>

definition getOrder :: "world \<Rightarrow> string \<Rightarrow> order option" where
  "getOrder w orderId = find (\<lambda>r. o_id r = orderId) (orders w)"

definition getSlot :: "world \<Rightarrow> string \<Rightarrow> slot option" where
  "getSlot w slotId = find (\<lambda>s. s_id s = slotId) (slots w)"


definition findAvailableSlot :: "world \<Rightarrow> string \<Rightarrow> string \<Rightarrow> slot option" where
  "findAvailableSlot w siteId tenantId =
     find (\<lambda>s. s_siteId s = siteId \<and> s_tenantId s = tenantId \<and> s_state s = SEmpty \<and> s_isActive s)
       (slots w)"

text \<open>
  The two write helpers are the shipped bodies: one debug line each. They write no row
  and do not reject.
\<close>

definition updateSlotState :: "string \<Rightarrow> slot_state \<Rightarrow> string option \<Rightarrow> world \<Rightarrow> world" where
  "updateSlotState slotId st orderId w = w"

definition updateOrderStatus :: "string \<Rightarrow> order_status \<Rightarrow> string option \<Rightarrow> world \<Rightarrow> world" where
  "updateOrderStatus orderId st slotId w = w"


section \<open>EventLedgerService\<close>

text \<open>\<^verbatim>\<open>storeEvent\<close> is the shipped body: a debug line. It stores nothing and does not reject.\<close>

definition storeEvent :: "security_event \<Rightarrow> world \<Rightarrow> (error + unit) \<times> world" where
  "storeEvent ev w = (Inr (), w)"

text \<open>
  \<^verbatim>\<open>logEvent\<close> builds \<^verbatim>\<open>{ id: eventId, ...event, timestamp, createdAt }\<close> (an
  identifier the caller set wins over the fresh one), awaits \<^verbatim>\<open>storeEvent\<close>, writes
  the line \<open>Security event logged\<close> with the fresh identifier, the type and the tenant,
  and returns the fresh identifier. Its \<^verbatim>\<open>catch\<close> logs the error and throws it again.
\<close>

definition logEvent ::
  "nat \<Rightarrow> string \<Rightarrow> security_event \<Rightarrow> world \<Rightarrow> (error + string) \<times> world" where
  "logEvent now eventId ev w =
     (let eventRecord =
            ev\<lparr>ev_id := (case ev_id ev of None \<Rightarrow> Some eventId | Some i \<Rightarrow> Some i),
               ev_timestamp := Some now\<rparr>
      in case storeEvent eventRecord w of
           (Inl e, w1) \<Rightarrow> (Inl e, w1\<lparr>errlog := errlog w1 @ [e]\<rparr>)
         | (Inr u, w1) \<Rightarrow>
             (Inr eventId,
              w1\<lparr>eventlog := eventlog w1 @
                     [\<lparr> el_eventId = eventId, el_type = ev_type ev,
                        el_tenantId = ev_tenantId ev \<rparr>]\<rparr>))"

definition mkEvent ::
  "string \<Rightarrow> string \<Rightarrow> string option \<Rightarrow> string option \<Rightarrow> string option \<Rightarrow> string option \<Rightarrow>
   string option \<Rightarrow> string option \<Rightarrow> security_event" where
  "mkEvent ty tenantId siteId shelfId slotId orderId riderId userId =
     \<lparr> ev_id = None, ev_type = ty, ev_tenantId = tenantId, ev_siteId = siteId,
       ev_shelfId = shelfId, ev_slotId = slotId, ev_orderId = orderId, ev_riderId = riderId,
       ev_userId = userId, ev_timestamp = None \<rparr>"

section \<open>MQTTService and DeviceService\<close>

definition publishCommand ::
  "env \<Rightarrow> string \<Rightarrow> device_command \<Rightarrow> world \<Rightarrow> (error + unit) \<times> world" where
  "publishCommand E deviceId command w =
     (if \<not> mqttConnected w then (Inl MqttNotConnected, w)
      else if MqttPublish \<in> faults E then (Inl (ExternalFailure MqttPublish), w)
      else (Inr (), w\<lparr>published := published w @ [command]\<rparr>))"

definition sendSlotLockCommand ::
  "env \<Rightarrow> nat \<Rightarrow> string \<Rightarrow> string \<Rightarrow> world \<Rightarrow> (error + unit) \<times> world" where
  "sendSlotLockCommand E now shelfId slotId w =
     (case publishCommand E shelfId
             \<lparr> cmd_type = ''lock_slot'', cmd_deviceId = shelfId, cmd_slotId = slotId,
               cmd_expiresAt = now + 30 \<rparr> w of
        (Inl e, w1) \<Rightarrow> (Inl e, w1\<lparr>errlog := errlog w1 @ [e]\<rparr>)
      | (Inr u, w1) \<Rightarrow> (Inr (), w1))"

section \<open>OrderOrchestratorService\<close>

record slot_assignment_request =
  rq_orderId :: string
  rq_siteId :: string
  rq_tenantId :: string
  rq_staffId :: string
  rq_preferredSlotId :: "string option"


record assign_result =
  ar_slotId :: string
  ar_success :: bool
  ar_qrCode :: "qr_data option"
  ar_otpCode :: "string option"



definition logAuditEvent :: "string \<Rightarrow> world \<Rightarrow> world" where
  "logAuditEvent name w = w\<lparr>auditlog := auditlog w @ [name]\<rparr>"

definition generateOrderHash :: "string \<Rightarrow> string" where
  "generateOrderHash orderId = drop (length orderId - 8) orderId"

text \<open>
  The QR payload is the Base64 of the JSON object \<open>{orderId, timestamp, hash}\<close>, the
  timestamp in milliseconds; the model keeps the object.
\<close>

definition generateOrderQRCode :: "entropy \<Rightarrow> string \<Rightarrow> qr_data" where
  "generateOrderQRCode ent orderId =
     \<lparr> qr_orderId = orderId, qr_timestamp = e_millis ent, qr_hash = generateOrderHash orderId \<rparr>"

definition generateOrderOTP ::
  "config \<Rightarrow> env \<Rightarrow> nat \<Rightarrow> string \<Rightarrow> string \<Rightarrow> world \<Rightarrow> (error + string) \<times> world" where
  "generateOrderOTP cfg E now otp orderId w =
     (if OtpCacheSet \<in> faults E then (Inl (ExternalFailure OtpCacheSet), w)
      else (Inr otp, setCache cfg now (''otp:'' @ orderId) otp 1800 w))"

text \<open>
  The slot an assignment targets: the preferred slot when the request names one (an empty
  string is falsy and counts as none), the next available slot otherwise.
\<close>

definition truthy :: "string option \<Rightarrow> string option" where
  "truthy x = (case x of None \<Rightarrow> None | Some v \<Rightarrow> if v = [] then None else Some v)"

definition selectSlot :: "slot_assignment_request \<Rightarrow> world \<Rightarrow> error + slot" where
  "selectSlot request w =
     (case truthy (rq_preferredSlotId request) of
        Some preferredSlotId \<Rightarrow>
          (case getSlot w preferredSlotId of
             None \<Rightarrow> Inl PreferredSlotUnavailable
           | Some targetSlot \<Rightarrow>
               if s_state targetSlot \<noteq> SEmpty \<or> \<not> s_isActive targetSlot
               then Inl PreferredSlotUnavailable else Inr targetSlot)
      | None \<Rightarrow>
          (case findAvailableSlot w (rq_siteId request) (rq_tenantId request) of
             None \<Rightarrow> Inl NoAvailableSlots
           | Some targetSlot \<Rightarrow> Inr targetSlot))"

text \<open>The steps inside the inner \<^verbatim>\<open>try\<close> of \<^verbatim>\<open>assignOrderToSlot\<close>.\<close>

definition assignCommit ::
  "config \<Rightarrow> env \<Rightarrow> nat \<Rightarrow> entropy \<Rightarrow> slot_assignment_request \<Rightarrow> order \<Rightarrow> slot \<Rightarrow>
   world \<Rightarrow> (error + assign_result) \<times> world" where
  "assignCommit cfg E now ent request ord targetSlot w =
     (let w1 = updateSlotState (s_id targetSlot) SReserved (Some (o_id ord)) w;
          w2 = updateOrderStatus (o_id ord) OAssigned (Some (s_id targetSlot)) w1;
          qrCode = generateOrderQRCode ent (o_id ord)
      in bindE (generateOrderOTP cfg E now (e_otp ent) (o_id ord)) (\<lambda>otpCode.
         bindE (logEvent now (e_eventId ent)
                  (mkEvent ''slot_assigned'' (rq_tenantId request) (Some (rq_siteId request))
                     (Some (s_shelfId targetSlot)) (Some (s_id targetSlot)) (Some (o_id ord))
                     None (Some (rq_staffId request)))) (\<lambda>_.
         bindE (sendSlotLockCommand E now (s_shelfId targetSlot) (s_id targetSlot)) (\<lambda>_ w3.
           (Inr \<lparr> ar_slotId = s_id targetSlot, ar_success = True,
                  ar_qrCode = Some qrCode, ar_otpCode = Some otpCode \<rparr>,
            logAuditEvent ''slot_assigned'' w3)))) w2)"

text \<open>The body of the outer \<^verbatim>\<open>try\<close>: a thrown error is \<open>Inl\<close>.\<close>

definition assignTry ::
  "config \<Rightarrow> env \<Rightarrow> nat \<Rightarrow> entropy \<Rightarrow> slot_assignment_request \<Rightarrow>
   world \<Rightarrow> (error + assign_result) \<times> world" where
  "assignTry cfg E now ent request w =
     (case getOrder w (rq_orderId request) of
        None \<Rightarrow> (Inl OrderNotFound, w)
      | Some ord \<Rightarrow>
          if o_status ord \<noteq> OPrepared then (Inl (InvalidOrderStatus (o_status ord)), w)
          else if o_tenantId ord \<noteq> rq_tenantId request then (Inl TenantMismatch, w)
          else (case selectSlot request w of
                  Inl e \<Rightarrow> (Inl e, w)
                | Inr targetSlot \<Rightarrow>
                    (case reserveSlot cfg now (s_id targetSlot) (o_id ord) (slotReservationTTL cfg) w of
                       (False, w1) \<Rightarrow> (Inl SlotTaken, w1)
                     | (True, w1) \<Rightarrow>
                         (case assignCommit cfg E now ent request ord targetSlot w1 of
                            (Inl e, w2) \<Rightarrow> (Inl e, releaseSlot cfg (s_id targetSlot) w2)
                          | (Inr res, w2) \<Rightarrow> (Inr res, w2)))))"

definition assignOrderToSlot ::
  "config \<Rightarrow> env \<Rightarrow> nat \<Rightarrow> entropy \<Rightarrow> slot_assignment_request \<Rightarrow>
   world \<Rightarrow> assign_result \<times> world" where
  "assignOrderToSlot cfg E now ent request w =
     (case assignTry cfg E now ent request w of
        (Inl e, w1) \<Rightarrow>
          (\<lparr> ar_slotId = [], ar_success = False, ar_qrCode = None, ar_otpCode = None \<rparr>,
           w1\<lparr>errlog := errlog w1 @ [e]\<rparr>)
      | (Inr res, w1) \<Rightarrow> (res, w1))"








text \<open>
  \<^verbatim>\<open>confirmUnlock\<close>: the two writes, the pickup event when both rows read back, the
  timer of the delayed reset (30 seconds). Its \<^verbatim>\<open>catch\<close> logs and throws again.
\<close>

definition confirmTry ::
  "nat \<Rightarrow> entropy \<Rightarrow> string \<Rightarrow> string \<Rightarrow> string \<Rightarrow> world \<Rightarrow> (error + unit) \<times> world" where
  "confirmTry now ent slotId orderId riderId w =
     (let w1 = updateSlotState slotId SOpen None w;
          w2 = updateOrderStatus orderId OPickedUp None w1
      in bindE (\<lambda>w. case (getSlot w slotId, getOrder w orderId) of
                       (Some slot, Some ord) \<Rightarrow>
                         bindE (logEvent now (e_eventId ent)
                                  (mkEvent ''parcel_picked_up'' (o_tenantId ord)
                                     (Some (s_siteId slot)) (Some (s_shelfId slot))
                                     (Some (s_id slot)) (Some (o_id ord)) (Some riderId) None))
                               (\<lambda>_ w3. (Inr (), logAuditEvent ''parcel_picked_up'' w3)) w
                     | _ \<Rightarrow> (Inr (), w)) (\<lambda>_ w4.
           (Inr (), w4\<lparr>timers := timers w4 @ [(slotId, now + 30)]\<rparr>)) w2)"

definition confirmUnlock ::
  "nat \<Rightarrow> entropy \<Rightarrow> string \<Rightarrow> string \<Rightarrow> string \<Rightarrow> world \<Rightarrow> (error + unit) \<times> world" where
  "confirmUnlock now ent slotId orderId riderId w =
     (case confirmTry now ent slotId orderId riderId w of
        (Inl e, w1) \<Rightarrow> (Inl e, w1\<lparr>errlog := errlog w1 @ [e]\<rparr>)
      | (Inr u, w1) \<Rightarrow> (Inr (), w1))"



section \<open>Sample site\<close>

text \<open>
  \<open>initWorld\<close> has empty tables: the read helpers return \<open>None\<close> for every argument, as
  they do in the source as shipped. \<open>siteWorld\<close> is the first scenario of the
  specification: one tenant, one site, one shelf with one empty active slot, one prepared
  order.
\<close>

definition initWorld :: world where
  "initWorld =
     \<lparr> redis = Map.empty, orders = [], slots = [], eventlog = [], seclog = [], auditlog = [],
       errlog = [], mqttConnected = True, published = [], timers = [] \<rparr>"

definition order1 :: order where
  "order1 =
     \<lparr> o_id = ''O1'', o_tenantId = ''T1'', o_siteId = ''SITE1'', o_externalRef = ''ext-1'',
       o_platform = ''uber_eats'', o_riderId = None, o_status = OPrepared \<rparr>"

definition slot1 :: slot where
  "slot1 =
     \<lparr> s_id = ''S1'', s_shelfId = ''A'', s_siteId = ''SITE1'', s_tenantId = ''T1'',
       s_index = 1, s_state = SEmpty, s_orderId = None, s_isActive = True \<rparr>"

definition siteWorld :: world where
  "siteWorld = initWorld\<lparr>orders := [order1], slots := [slot1]\<rparr>"

definition request1 :: slot_assignment_request where
  "request1 =
     \<lparr> rq_orderId = ''O1'', rq_siteId = ''SITE1'', rq_tenantId = ''T1'',
       rq_staffId = ''staff-1'', rq_preferredSlotId = None \<rparr>"


definition noFaults :: env where
  "noFaults = \<lparr> faults = {} \<rparr>"

definition draw1 :: entropy where
  "draw1 =
     \<lparr> e_uuid = ''jti-1'', e_eventId = ''ev-1'', e_otp = ''482913'', e_millis = 1000000 \<rparr>"

text \<open>The token of \<open>draw1\<close> issued at second 100 for order \<open>O1\<close> in slot \<open>S1\<close> of shelf \<open>A\<close>.\<close>

definition claims1 :: unlock_claims where
  "claims1 =
     \<lparr> jti = ''jti-1'', c_tenantId = ''T1'', c_siteId = ''SITE1'', c_shelfId = ''A'',
       c_slotId = ''S1'', c_orderId = ''O1'', c_riderId = ''R1'', c_exp = 160, c_nbf = 100,
       c_iat = 100 \<rparr>"

definition issued1 :: "token \<times> world" where
  "issued1 =
     generateUnlockToken defaultConfig 100 ''jti-1'' ''O1'' ''R1'' ''S1'' ''A'' ''SITE1'' ''T1''
       initWorld"

text \<open>The sample site with the device channel disconnected.\<close>

definition offlineWorld :: world where
  "offlineWorld = siteWorld\<lparr>mqttConnected := False\<rparr>"

text \<open>The sample site with slot \<open>S1\<close> under the reservation of another request.\<close>

definition reservedWorld :: world where
  "reservedWorld = snd (reserveSlot defaultConfig 1000 ''S1'' ''O9'' 1800 siteWorld)"




section \<open>Facts about the coordination store and the token\<close>

lemmas token_eval =
  issued1_def claims1_def generateUnlockToken_def Let_def storeUnlockTokenJti_def logSecurityEvent_def
  verifyUnlockToken_def verifyBegin_def verifyFinish_def jwt_verify_def verifyUnlockTokenJti_def consumeUnlockTokenJti_def
  r_exists_def r_live_def r_setEx_def r_del_def defaultConfig_def initWorld_def getKey_def

lemma jti_live_after_generate:
  assumes "generateUnlockToken cfg t0 uuid oid rid sid shelf site ten w0 = (tok, w1)"
      and "t < t0 + unlockTokenTTL cfg + 10"
  shows "verifyUnlockTokenJti cfg t uuid w1"
  using assms
  by (auto simp: generateUnlockToken_def Let_def storeUnlockTokenJti_def logSecurityEvent_def
        verifyUnlockTokenJti_def r_exists_def r_live_def r_setEx_def)

lemma verify_None_redis:
  "fst (verifyUnlockToken cfg t tok shelf w) = None \<Longrightarrow>
   redis (snd (verifyUnlockToken cfg t tok shelf w)) = redis w"
  by (auto simp: verifyUnlockToken_def verifyBegin_def verifyFinish_def logSecurityEvent_def split: sum.splits if_splits)

lemma verify_absent_None:
  assumes "tok = Signed c k" and "redis w (getKey cfg [''unlock_jti'', jti c]) = None"
  shows "fst (verifyUnlockToken cfg t tok shelf w) = None"
  using assms
  by (auto simp: verifyUnlockToken_def verifyBegin_def verifyFinish_def jwt_verify_def logSecurityEvent_def
        verifyUnlockTokenJti_def r_exists_def r_live_def split: sum.splits)

lemma verifyAttempts_absent:
  assumes "tok = Signed c k" and "redis w (getKey cfg [''unlock_jti'', jti c]) = None"
  shows "\<forall>r \<in> set (fst (verifyAttempts cfg tok atts w)). r = None"
  using assms
proof (induction atts arbitrary: w)
  case Nil
  then show ?case by simp
next
  case (Cons a atts)
  obtain t shelf where a: "a = (t, shelf)" by (cases a)
  obtain r w1 where v: "verifyUnlockToken cfg t tok shelf w = (r, w1)"
    by (cases "verifyUnlockToken cfg t tok shelf w")
  have r: "r = None"
    using verify_absent_None[OF Cons.prems, of t shelf] v by simp
  then have "redis w1 = redis w"
    using verify_None_redis[of cfg t tok shelf w] v by simp
  then have "\<forall>r \<in> set (fst (verifyAttempts cfg tok atts w1)). r = None"
    using Cons.IH[OF Cons.prems(1), of w1] Cons.prems(2) by simp
  then show ?case using a v r by (simp split: prod.splits)
qed

lemma verifyAttempts_length:
  "length (fst (verifyAttempts cfg tok atts w)) = length atts"
proof (induction atts arbitrary: w)
  case Nil
  then show ?case by simp
next
  case (Cons a atts)
  obtain t shelf where a: "a = (t, shelf)" by (cases a)
  obtain r w1 where v: "verifyUnlockToken cfg t tok shelf w = (r, w1)"
    by (cases "verifyUnlockToken cfg t tok shelf w")
  obtain rs w2 where rest: "verifyAttempts cfg tok atts w1 = (rs, w2)"
    by (cases "verifyAttempts cfg tok atts w1")
  have "length rs = length atts"
    using Cons.IH[of w1] rest by simp
  then show ?case using a v rest by simp
qed

lemma verify_success:
  assumes "tok = Signed c (unlockTokenSecret cfg)"
      and "c_nbf c \<le> t + clockSkewToleranceSeconds cfg"
      and "t < c_exp c + clockSkewToleranceSeconds cfg"
      and "verifyUnlockTokenJti cfg t (jti c) w"
  shows "fst (verifyUnlockToken cfg t tok (c_shelfId c) w) = Some c"
    and "redis (snd (verifyUnlockToken cfg t tok (c_shelfId c) w))
           (getKey cfg [''unlock_jti'', jti c]) = None"
  using assms
  by (auto simp: verifyUnlockToken_def verifyBegin_def verifyFinish_def jwt_verify_def logSecurityEvent_def
        consumeUnlockTokenJti_def r_del_def)

lemma verify_fst_cong:
  "redis w = redis w' \<Longrightarrow>
   fst (verifyUnlockToken cfg t tok shelf w) = fst (verifyUnlockToken cfg t tok shelf w')"
  by (auto simp: verifyUnlockToken_def verifyBegin_def verifyFinish_def verifyUnlockTokenJti_def logSecurityEvent_def
        split: sum.splits)

section \<open>The unlock token\<close>

text \<open>
  Calls that do not overlap: a token issued by \<open>generateUnlockToken\<close> at \<open>t0\<close> and first
  verified inside its window against the shelf it is bound to returns its claims, and
  every later call with that token, at any time and against any shelf, returns \<open>None\<close>.
\<close>

lemma sequential_single_use:
  assumes gen: "generateUnlockToken cfg t0 uuid oid rid sid shelf site ten w0 = (tok, w1)"
      and win: "t0 \<le> t" "t < t0 + unlockTokenTTL cfg"
      and first: "verifyUnlockToken cfg t tok shelf w1 = (r, w2)"
  shows "(\<exists>c. r = Some c \<and> tok = Signed c (unlockTokenSecret cfg) \<and> jti c = uuid
              \<and> c_shelfId c = shelf)
       \<and> (\<forall>atts. \<forall>r' \<in> set (fst (verifyAttempts cfg tok atts w2)). r' = None)"
proof -
  define c where "c = \<lparr> jti = uuid, c_tenantId = ten, c_siteId = site, c_shelfId = shelf,
              c_slotId = sid, c_orderId = oid, c_riderId = rid,
              c_exp = t0 + unlockTokenTTL cfg, c_nbf = t0, c_iat = t0 \<rparr>"
  have tok: "tok = Signed c (unlockTokenSecret cfg)"
    using gen by (simp add: generateUnlockToken_def Let_def c_def)
  have sel: "c_shelfId c = shelf" "jti c = uuid" "c_nbf c = t0"
    "c_exp c = t0 + unlockTokenTTL cfg"
    by (simp_all add: c_def)
  have live: "verifyUnlockTokenJti cfg t (jti c) w1"
    using jti_live_after_generate[OF gen, of t] win sel by simp
  have "fst (verifyUnlockToken cfg t tok (c_shelfId c) w1) = Some c"
    and "redis (snd (verifyUnlockToken cfg t tok (c_shelfId c) w1))
           (getKey cfg [''unlock_jti'', jti c]) = None"
    using verify_success[OF tok _ _ live] win sel by simp_all
  then have r: "r = Some c" and gone: "redis w2 (getKey cfg [''unlock_jti'', jti c]) = None"
    using first sel by simp_all
  show ?thesis
    using verifyAttempts_absent[OF tok gone] r tok sel by blast
qed

text \<open>
  C1. The claim fails on the code when two presentations of a token overlap. The token
  issued at second 100 for shelf \<open>A\<close> is presented against shelf \<open>A\<close> twice within
  second 130, the second call starting before the first has deleted the jti record: both
  calls find the record and both return the claims.
\<close>

theorem overlapping_verifications_both_succeed:
  "fst issued1 = Signed claims1 (unlockTokenSecret defaultConfig)
   \<and> fst (verifyOverlapping defaultConfig 130 ''A'' 130 ''A'' (fst issued1) (snd issued1))
       = (Some claims1, Some claims1)"
  by (simp add: verifyOverlapping_def token_eval)

text \<open>
  C3. A token bound to shelf A and presented against another shelf B is rejected, whatever
  the time, the store or the state of its jti record.
\<close>

theorem audience_binding:
  "tok = Signed c k \<Longrightarrow> c_shelfId c \<noteq> shelfB \<Longrightarrow>
   fst (verifyUnlockToken cfg now tok shelfB w) = None"
  by (auto simp: verifyUnlockToken_def verifyBegin_def verifyFinish_def jwt_verify_def logSecurityEvent_def
        split: sum.splits if_splits)

theorem audience_binding_witness:
  "fst issued1 = Signed claims1 (unlockTokenSecret defaultConfig)
   \<and> c_shelfId claims1 \<noteq> ''B''
   \<and> fst (verifyUnlockToken defaultConfig 130 (fst issued1) ''B'' (snd issued1)) = None"
proof -
  have a: "fst issued1
      = Signed claims1 (unlockTokenSecret defaultConfig)"
    by (simp add: token_eval)
  have b: "c_shelfId claims1 \<noteq> ''B''"
    by (simp add: token_eval)
  show ?thesis
    using audience_binding[OF a b, of defaultConfig 130 "snd issued1"] a b by blast
qed

text \<open>
  C4 (as amended). A token is rejected when the time has reached its \<open>exp\<close> plus the
  clock-skew allowance, and when the time plus the allowance is still before its \<open>nbf\<close>.
\<close>

theorem expiry_with_tolerance:
  "tok = Signed c k \<Longrightarrow>
   c_exp c + clockSkewToleranceSeconds cfg \<le> now \<or> now + clockSkewToleranceSeconds cfg < c_nbf c \<Longrightarrow>
   fst (verifyUnlockToken cfg now tok shelf w) = None"
  by (auto simp: verifyUnlockToken_def verifyBegin_def verifyFinish_def jwt_verify_def logSecurityEvent_def split: sum.splits)

theorem expiry_with_tolerance_witness:
  "fst (verifyUnlockToken defaultConfig 170 (fst issued1) ''A'' (snd issued1)) = None
   \<and> fst (verifyUnlockToken defaultConfig 89 (fst issued1) ''A'' (snd issued1)) = None"
proof -
  have a: "fst issued1
      = Signed claims1 (unlockTokenSecret defaultConfig)"
    by (simp add: token_eval)
  have late: "c_exp claims1 + clockSkewToleranceSeconds defaultConfig \<le> 170
      \<or> 170 + clockSkewToleranceSeconds defaultConfig < c_nbf claims1"
    by (simp add: token_eval)
  have early: "c_exp claims1 + clockSkewToleranceSeconds defaultConfig \<le> 89
      \<or> 89 + clockSkewToleranceSeconds defaultConfig < c_nbf claims1"
    by (simp add: token_eval)
  show ?thesis
    using expiry_with_tolerance[OF a late, of "''A''" "snd issued1"]
          expiry_with_tolerance[OF a early, of "''A''" "snd issued1"] by blast
qed

text \<open>
  C4, the claim as stated, fails: with the configured allowance of 10 seconds the token
  whose \<open>nbf\<close> is 100 is accepted at second 95, before its \<open>nbf\<close>.
\<close>

theorem not_before_counterexample:
  "fst issued1 = Signed claims1 (unlockTokenSecret defaultConfig)
   \<and> 95 < c_nbf claims1
   \<and> fst (verifyUnlockToken defaultConfig 95 (fst issued1) ''A'' (snd issued1)) = Some claims1"
  by (simp add: token_eval)

text \<open>
  C10. A verification that returns \<open>None\<close> leaves the coordination store as it was, so
  the jti record is not consumed: a token whose record is live is still accepted
  afterwards, inside its window and against its own shelf.
\<close>

theorem failed_verification_keeps_jti:
  assumes "fst (verifyUnlockToken cfg now tok shelf w) = None"
  shows "redis (snd (verifyUnlockToken cfg now tok shelf w)) = redis w
       \<and> (\<forall>c t. c_nbf c \<le> t + clockSkewToleranceSeconds cfg
                \<and> t < c_exp c + clockSkewToleranceSeconds cfg
                \<and> verifyUnlockTokenJti cfg t (jti c) w
            \<longrightarrow> fst (verifyUnlockToken cfg t (Signed c (unlockTokenSecret cfg)) (c_shelfId c)
                       (snd (verifyUnlockToken cfg now tok shelf w))) = Some c)"
proof -
  have same: "redis (snd (verifyUnlockToken cfg now tok shelf w)) = redis w"
    using assms by (rule verify_None_redis)
  have "fst (verifyUnlockToken cfg t (Signed c (unlockTokenSecret cfg)) (c_shelfId c)
               (snd (verifyUnlockToken cfg now tok shelf w))) = Some c"
    if "c_nbf c \<le> t + clockSkewToleranceSeconds cfg"
      and "t < c_exp c + clockSkewToleranceSeconds cfg"
      and "verifyUnlockTokenJti cfg t (jti c) w" for c t
    using verify_success(1)[OF refl that] verify_fst_cong[OF same] by simp
  then show ?thesis using same by blast
qed

theorem failed_verification_keeps_jti_witness:
  "fst (verifyUnlockToken defaultConfig 110 (fst issued1) ''B'' (snd issued1)) = None
   \<and> redis (snd (verifyUnlockToken defaultConfig 110 (fst issued1) ''B'' (snd issued1)))
       = redis (snd issued1)
   \<and> fst (verifyUnlockToken defaultConfig 120 (fst issued1) ''A''
            (snd (verifyUnlockToken defaultConfig 110 (fst issued1) ''B'' (snd issued1)))) \<noteq> None"
proof -
  have probe: "fst (verifyUnlockToken defaultConfig 110 (fst issued1) ''B'' (snd issued1)) = None"
    by (simp add: token_eval)
  define c where "c = claims1"
  have tok: "fst issued1 = Signed c (unlockTokenSecret defaultConfig)"
    and shelf: "c_shelfId c = ''A''"
    and ok: "c_nbf c \<le> 120 + clockSkewToleranceSeconds defaultConfig"
      "120 < c_exp c + clockSkewToleranceSeconds defaultConfig"
      "verifyUnlockTokenJti defaultConfig 120 (jti c) (snd issued1)"
    by (simp_all add: c_def token_eval)
  have same: "redis (snd (verifyUnlockToken defaultConfig 110 (fst issued1) ''B'' (snd issued1)))
      = redis (snd issued1)"
    and later: "\<forall>c t. c_nbf c \<le> t + clockSkewToleranceSeconds defaultConfig
                \<and> t < c_exp c + clockSkewToleranceSeconds defaultConfig
                \<and> verifyUnlockTokenJti defaultConfig t (jti c) (snd issued1)
            \<longrightarrow> fst (verifyUnlockToken defaultConfig t (Signed c (unlockTokenSecret defaultConfig))
                       (c_shelfId c)
                       (snd (verifyUnlockToken defaultConfig 110 (fst issued1) ''B''
                               (snd issued1)))) = Some c"
    using failed_verification_keeps_jti[OF probe] by blast+
  have "fst (verifyUnlockToken defaultConfig 120 (Signed c (unlockTokenSecret defaultConfig))
               (c_shelfId c)
               (snd (verifyUnlockToken defaultConfig 110 (fst issued1) ''B'' (snd issued1))))
        = Some c"
    using later[rule_format, of c 120] ok by blast
  then show ?thesis
    using probe same tok shelf by simp
qed

section \<open>Facts about reservation and assignment\<close>

lemma reservation_None_iff:
  "getSlotReservation cfg now sid w = None
   \<longleftrightarrow> \<not> r_live now (redis w) (getKey cfg [''slot_reservation'', sid])"
  by (auto simp: getSlotReservation_def r_get_def r_live_def split: option.splits)

lemma reserveSlot_free:
  assumes "getSlotReservation cfg now sid w = None"
  shows "reserveSlot cfg now sid oid ttl w
       = (True, w\<lparr>redis := (redis w)(getKey cfg [''slot_reservation'', sid]
                                       \<mapsto> (Str oid, Some (now + ttl)))\<rparr>)"
  using assms
  by (simp add: reservation_None_iff reserveSlot_def r_setNX_def r_expire_def r_get_def
        r_live_def)

lemma reserveSlot_taken:
  assumes "getSlotReservation cfg now sid w \<noteq> None"
  shows "reserveSlot cfg now sid oid ttl w = (False, w)"
  using assms by (simp add: reservation_None_iff reserveSlot_def r_setNX_def)

lemma reservation_after_reserve:
  "getSlotReservation cfg t sid
     (w\<lparr>redis := (redis w)(getKey cfg [''slot_reservation'', sid] \<mapsto> (Str oid, Some e))\<rparr>)
   = (if t < e then Some (Str oid) else None)"
  by (simp add: getSlotReservation_def r_get_def r_live_def)


lemma releaseSlot_tables [simp]:
  "slots (releaseSlot cfg sid w) = slots w" "orders (releaseSlot cfg sid w) = orders w"
  by (simp_all add: releaseSlot_def)

lemma reservation_errlog [simp]:
  "getSlotReservation cfg t sid (w\<lparr>errlog := l\<rparr>) = getSlotReservation cfg t sid w"
  by (simp add: getSlotReservation_def)

lemma assignTry_taken:
  assumes "getOrder w (rq_orderId rq) = Some ord" and "o_status ord = OPrepared"
      and "o_tenantId ord = rq_tenantId rq" and "selectSlot rq w = Inr s"
      and "getSlotReservation cfg now (s_id s) w \<noteq> None"
  shows "assignTry cfg E now ent rq w = (Inl SlotTaken, w)"
  using assms by (simp add: assignTry_def reserveSlot_taken)


lemmas step_defs =
  bindE_def updateSlotState_def updateOrderStatus_def generateOrderQRCode_def
  generateOrderOTP_def logEvent_def storeEvent_def sendSlotLockCommand_def
  publishCommand_def logAuditEvent_def setCache_def Let_def







lemmas world_eval =
  initWorld_def siteWorld_def order1_def slot1_def request1_def noFaults_def draw1_def
  defaultConfig_def offlineWorld_def reservedWorld_def

lemmas assign_eval =
  assignOrderToSlot_def assignTry_def assignCommit_def selectSlot_def truthy_def getOrder_def
  getSlot_def findAvailableSlot_def reserveSlot_def releaseSlot_def getSlotReservation_def
  r_setNX_def r_expire_def r_get_def r_live_def r_del_def r_setEx_def getKey_def mkEvent_def
  generateOrderHash_def step_defs







section \<open>Reservation\<close>

text \<open>
  C2. \<open>reserveSlot\<close> returns true exactly when no live reservation of the slot is present;
  it then binds the slot to the order until \<open>now + ttl\<close>, and an attempt for the same slot
  before that instant returns false and changes nothing. When the slot chosen for an
  assignment is under a live reservation, \<open>assignOrderToSlot\<close> reports failure, the error
  it logs is the slot-taken error, and nothing else of the state changes.
\<close>

theorem reserve_slot_exclusive:
  "(fst (reserveSlot cfg now sid oid ttl w) \<longleftrightarrow> getSlotReservation cfg now sid w = None)
   \<and> (getSlotReservation cfg now sid w = None \<longrightarrow>
        (\<forall>t. getSlotReservation cfg t sid (snd (reserveSlot cfg now sid oid ttl w))
               = (if t < now + ttl then Some (Str oid) else None))
        \<and> (\<forall>t oid' ttl'. t < now + ttl \<longrightarrow>
               reserveSlot cfg t sid oid' ttl' (snd (reserveSlot cfg now sid oid ttl w))
               = (False, snd (reserveSlot cfg now sid oid ttl w))))
   \<and> (getSlotReservation cfg now sid w \<noteq> None \<longrightarrow>
        snd (reserveSlot cfg now sid oid ttl w) = w
        \<and> (\<forall>E ent rq ord s.
              getOrder w (rq_orderId rq) = Some ord \<and> o_status ord = OPrepared
              \<and> o_tenantId ord = rq_tenantId rq \<and> selectSlot rq w = Inr s \<and> s_id s = sid
              \<longrightarrow> assignOrderToSlot cfg E now ent rq w
                  = (\<lparr> ar_slotId = [], ar_success = False, ar_qrCode = None,
                       ar_otpCode = None \<rparr>,
                     w\<lparr>errlog := errlog w @ [SlotTaken]\<rparr>)))"
proof (cases "getSlotReservation cfg now sid w = None")
  case True
  let ?w1 = "w\<lparr>redis := (redis w)(getKey cfg [''slot_reservation'', sid]
                                       \<mapsto> (Str oid, Some (now + ttl)))\<rparr>"
  have r: "reserveSlot cfg now sid oid ttl w = (True, ?w1)"
    using True by (rule reserveSlot_free)
  have bound: "getSlotReservation cfg t sid ?w1 = (if t < now + ttl then Some (Str oid) else None)"
    for t
    by (rule reservation_after_reserve)
  have "reserveSlot cfg t sid oid' ttl' ?w1 = (False, ?w1)" if "t < now + ttl" for t oid' ttl'
    using that bound[of t] by (intro reserveSlot_taken) simp
  then show ?thesis using True r bound by simp
next
  case False
  have r: "reserveSlot cfg now sid oid ttl w = (False, w)"
    using False by (rule reserveSlot_taken)
  have "assignOrderToSlot cfg E now ent rq w
          = (\<lparr> ar_slotId = [], ar_success = False, ar_qrCode = None, ar_otpCode = None \<rparr>,
             w\<lparr>errlog := errlog w @ [SlotTaken]\<rparr>)"
    if "getOrder w (rq_orderId rq) = Some ord" "o_status ord = OPrepared"
      "o_tenantId ord = rq_tenantId rq" "selectSlot rq w = Inr s" "s_id s = sid"
    for E ent rq ord s
    using assignTry_taken[OF that(1-4), of cfg now E ent] that(5) False
    by (simp add: assignOrderToSlot_def)
  then show ?thesis using False r by auto
qed

theorem reserve_slot_exclusive_witness:
  "fst (reserveSlot defaultConfig 1000 ''S1'' ''O1'' 1800 siteWorld)
   \<and> getSlotReservation defaultConfig 1500 ''S1''
        (snd (reserveSlot defaultConfig 1000 ''S1'' ''O1'' 1800 siteWorld)) = Some (Str ''O1'')
   \<and> fst (reserveSlot defaultConfig 1500 ''S1'' ''O2'' 1800
            (snd (reserveSlot defaultConfig 1000 ''S1'' ''O1'' 1800 siteWorld))) = False
   \<and> getSlotReservation defaultConfig 1000 ''S1'' reservedWorld \<noteq> None
   \<and> \<not> ar_success (fst (assignOrderToSlot defaultConfig noFaults 1000 draw1 request1 reservedWorld))
   \<and> snd (assignOrderToSlot defaultConfig noFaults 1000 draw1 request1 reservedWorld)
       = reservedWorld\<lparr>errlog := errlog reservedWorld @ [SlotTaken]\<rparr>"
proof -
  have free: "getSlotReservation defaultConfig 1000 ''S1'' siteWorld = None"
    by (simp add: world_eval getSlotReservation_def r_get_def r_live_def)
  have taken: "getSlotReservation defaultConfig 1000 ''S1'' reservedWorld \<noteq> None"
    by (simp add: world_eval assign_eval)
  have pre: "getOrder reservedWorld (rq_orderId request1) = Some order1
      \<and> o_status order1 = OPrepared \<and> o_tenantId order1 = rq_tenantId request1
      \<and> selectSlot request1 reservedWorld = Inr slot1 \<and> s_id slot1 = ''S1''"
    by (simp add: world_eval assign_eval)
  note a = reserve_slot_exclusive[of defaultConfig 1000 "''S1''" "''O1''" 1800 siteWorld]
  note b = reserve_slot_exclusive[of defaultConfig 1000 "''S1''" "''O9''" 1800 reservedWorld]
  have a1: "fst (reserveSlot defaultConfig 1000 ''S1'' ''O1'' 1800 siteWorld)"
    using a free by blast
  have a2: "getSlotReservation defaultConfig 1500 ''S1''
        (snd (reserveSlot defaultConfig 1000 ''S1'' ''O1'' 1800 siteWorld)) = Some (Str ''O1'')"
    using a free by simp
  have a3: "reserveSlot defaultConfig 1500 ''S1'' ''O2'' 1800
            (snd (reserveSlot defaultConfig 1000 ''S1'' ''O1'' 1800 siteWorld))
          = (False, snd (reserveSlot defaultConfig 1000 ''S1'' ''O1'' 1800 siteWorld))"
    using a free by simp
  have b1: "assignOrderToSlot defaultConfig noFaults 1000 draw1 request1 reservedWorld
      = (\<lparr> ar_slotId = [], ar_success = False, ar_qrCode = None, ar_otpCode = None \<rparr>,
         reservedWorld\<lparr>errlog := errlog reservedWorld @ [SlotTaken]\<rparr>)"
    using b taken pre by blast
  show ?thesis using a1 a2 a3 b1 taken by simp
qed



section \<open>Audit ledger\<close>



section \<open>Unlock confirmation and failure reports\<close>

text \<open>
  C7. The claim fails on the code at \<open>confirmUnlock\<close>, which reads no state before it
  asks for \<open>open\<close> and \<open>picked_up\<close>: called for slot \<open>S1\<close> of the sample site, which is
  empty, and its order, which is only prepared, it does not fail; it returns normally and
  sets the reset timer. It does so too when the reads return nothing, as shipped.
\<close>

theorem confirm_on_empty_does_not_fail:
  "map_option s_state (getSlot siteWorld ''S1'') = Some SEmpty
   \<and> map_option o_status (getOrder siteWorld ''O1'') = Some OPrepared
   \<and> fst (confirmUnlock 1000 draw1 ''S1'' ''O1'' ''R1'' siteWorld) = Inr ()
   \<and> timers (snd (confirmUnlock 1000 draw1 ''S1'' ''O1'' ''R1'' siteWorld)) = [(''S1'', 1030)]
   \<and> errlog (snd (confirmUnlock 1000 draw1 ''S1'' ''O1'' ''R1'' siteWorld)) = []
   \<and> confirmUnlock 1000 draw1 ''S1'' ''O1'' ''R1'' initWorld
       = (Inr (), initWorld\<lparr>timers := [(''S1'', 1030)]\<rparr>)"
  by (simp add: confirmUnlock_def confirmTry_def world_eval assign_eval)


section \<open>Rate limit of unlock requests\<close>

















end
